theory Spec2Isabelle
  imports Main "HOL-Library.Sublist"
begin

section \<open>Python values, exceptions and string primitives\<close>

text \<open>
  RoboWrapper.py is a Python 2 script: a job is whatever \<^verbatim>\<open>yaml.load\<close> returns, and
  every access to it is dynamically typed. The values a YAML document denotes are modelled
  by \<open>pyval\<close>: null, booleans, integers, strings, sequences and mappings. Mapping keys
  are strings: the program looks keys up by string literals only, so a key of another type
  never matches a lookup. Floats and timestamps are left out. Text is a list of bytes;
  Python 2's distinction between \<^verbatim>\<open>str\<close> and \<^verbatim>\<open>unicode\<close> is not modelled.
\<close>

datatype pyval =
    PNone
  | PBool bool
  | PInt int
  | PStr string
  | PList "pyval list"
  | PDict "string \<Rightarrow> pyval option"

text \<open>
  The exceptions that can cross a function boundary of the script. \<open>RoboException\<close> is
  the script's own class and carries its message; \<open>IOError\<close> carries its errno;
  \<open>com_error\<close> is a failure of the WMI query and \<open>OSError\<close> a failure to start the child
  process. \<open>TypeError\<close> and \<open>AttributeError\<close> arise from ill-typed job documents.
\<close>

datatype exn =
    RoboException string
  | IOError nat
  | KeyError string
  | TypeError
  | AttributeError
  | OSError
  | com_error

definition EACCES :: nat where
  "EACCES = 13"

definition bind :: "exn + 'a \<Rightarrow> ('a \<Rightarrow> exn + 'b) \<Rightarrow> exn + 'b" where
  "bind m f = (case m of Inl e \<Rightarrow> Inl e | Inr x \<Rightarrow> f x)"

abbreviation backslash :: char where
  "backslash \<equiv> CHR 0x5C"

text \<open>\<^verbatim>\<open>sub in s\<close> on strings: \<open>sub\<close> occurs as a contiguous run of \<open>s\<close>.\<close>

fun str_contains :: "string \<Rightarrow> string \<Rightarrow> bool" where
  "str_contains sub [] = (sub = [])"
| "str_contains sub (c # cs) = (prefix sub (c # cs) \<or> str_contains sub cs)"

text \<open>
  \<^verbatim>\<open>s.replace(old, new)\<close>: every occurrence of \<open>old\<close>, found left to right without
  overlap, is replaced. With an empty \<open>old\<close> Python inserts \<open>new\<close> before every character
  and at the end.
\<close>

function py_replace :: "string \<Rightarrow> string \<Rightarrow> string \<Rightarrow> string" where
  "py_replace [] old new = (if old = [] then new else [])"
| "py_replace (c # cs) old new =
     (if old = [] then new @ c # py_replace cs old new
      else if prefix old (c # cs) then new @ py_replace (drop (length old) (c # cs)) old new
      else c # py_replace cs old new)"
  by pat_completeness auto
termination
  by (relation "measure (\<lambda>(s, old, new). length s)") auto

text \<open>\<^verbatim>\<open>s.split(d)\<close> for a one-character separator: every separator splits.\<close>

fun py_split :: "string \<Rightarrow> char \<Rightarrow> string list" where
  "py_split [] d = [[]]"
| "py_split (c # cs) d =
     (if c = d then [] # py_split cs d
      else (case py_split cs d of [] \<Rightarrow> [[c]] | w # ws \<Rightarrow> (c # w) # ws))"

text \<open>\<^verbatim>\<open>sep.join(xs)\<close>.\<close>

fun py_join :: "string \<Rightarrow> string list \<Rightarrow> string" where
  "py_join sp [] = []"
| "py_join sp [x] = x"
| "py_join sp (x # y # ys) = x @ sp @ py_join sp (y # ys)"

definition endswith :: "string \<Rightarrow> string \<Rightarrow> bool" where
  "endswith s suf = suffix suf s"

text \<open>\<^verbatim>\<open>s.find(c, start)\<close> for a one-character \<open>c\<close>; \<open>None\<close> is Python's \<open>-1\<close>.\<close>

fun find_char :: "char \<Rightarrow> string \<Rightarrow> nat option" where
  "find_char c [] = None"
| "find_char c (x # xs) = (if x = c then Some 0 else map_option Suc (find_char c xs))"

definition py_find :: "string \<Rightarrow> char \<Rightarrow> nat \<Rightarrow> nat option" where
  "py_find s c start = map_option (\<lambda>i. i + start) (find_char c (drop start s))"

text \<open>\<^verbatim>\<open>s.lower()\<close> on ASCII text.\<close>

definition lower_char :: "char \<Rightarrow> char" where
  "lower_char c =
     (let n = (of_char c :: nat) in if 65 \<le> n \<and> n \<le> 90 then char_of (n + 32) else c)"

definition py_lower :: "string \<Rightarrow> string" where
  "py_lower s = map lower_char s"

text \<open>Decimal text of an integer, as \<^verbatim>\<open>"{}".format(n)\<close> gives it.\<close>

function show_nat :: "nat \<Rightarrow> string" where
  "show_nat n =
     (if n < 10 then [''0123456789'' ! n]
      else show_nat (n div 10) @ [''0123456789'' ! (n mod 10)])"
  by pat_completeness auto
termination
  by (relation "measure id") auto

declare show_nat.simps [simp del]

definition show_int :: "int \<Rightarrow> string" where
  "show_int i = (if i < 0 then CHR ''-'' # show_nat (nat (- i)) else show_nat (nat i))"

text \<open>
  \<^verbatim>\<open>key in v\<close> for a string key: membership in a mapping's keys, substring of a
  string, element of a sequence; a \<^verbatim>\<open>TypeError\<close> on a value that is not iterable.
\<close>

definition py_in :: "string \<Rightarrow> pyval \<Rightarrow> exn + bool" where
  "py_in k v =
     (case v of
        PDict m \<Rightarrow> Inr (\<not> Option.is_none (m k))
      | PStr s \<Rightarrow> Inr (str_contains k s)
      | PList xs \<Rightarrow> Inr (list_ex (\<lambda>x. case x of PStr t \<Rightarrow> t = k | _ \<Rightarrow> False) xs)
      | _ \<Rightarrow> Inl TypeError)"

text \<open>
  \<^verbatim>\<open>v[key]\<close> for a string key: the value of a mapping or a \<^verbatim>\<open>KeyError\<close>; a
  \<^verbatim>\<open>TypeError\<close> on every other value (strings and sequences take integer indices).
\<close>

definition getitem :: "pyval \<Rightarrow> string \<Rightarrow> exn + pyval" where
  "getitem v k =
     (case v of
        PDict m \<Rightarrow> (case m k of None \<Rightarrow> Inl (KeyError k) | Some x \<Rightarrow> Inr x)
      | _ \<Rightarrow> Inl TypeError)"


section \<open>The path functions of the standard library\<close>

text \<open>
  The script calls \<^verbatim>\<open>os.path.splitdrive\<close> and \<^verbatim>\<open>os.path.join\<close>; on Windows these are
  the functions of \<^verbatim>\<open>ntpath\<close>. They are transcribed from the module of Python 2.7
  (as of 2.7.18): a drive is a letter with a colon, or a UNC share
  \<^verbatim>\<open>\\host\share\<close>.
\<close>

definition is_sep :: "char \<Rightarrow> bool" where
  "is_sep c = (c = backslash \<or> c = CHR ''/'')"

definition splitdrive :: "string \<Rightarrow> string \<times> string" where
  "splitdrive p =
     (if length p > 1 then
        (let normp = map (\<lambda>c. if c = CHR ''/'' then backslash else c) p in
         if take 2 normp = [backslash, backslash] \<and> take 1 (drop 2 normp) \<noteq> [backslash] then
           (case py_find normp backslash 2 of
              None \<Rightarrow> ([], p)
            | Some index \<Rightarrow>
                (case py_find normp backslash (index + 1) of
                   None \<Rightarrow> (p, [])
                 | Some index2 \<Rightarrow>
                     if index2 = index + 1 then ([], p) else (take index2 p, drop index2 p)))
         else if normp ! 1 = CHR '':'' then (take 2 p, drop 2 p)
         else ([], p))
      else ([], p))"

text \<open>
  The loop of \<^verbatim>\<open>ntpath.join\<close> over the later components, on the pair
  \<open>(result_drive, result_path)\<close>.
\<close>

fun join_loop :: "string \<times> string \<Rightarrow> string list \<Rightarrow> string \<times> string" where
  "join_loop (result_drive, result_path) [] = (result_drive, result_path)"
| "join_loop (result_drive, result_path) (p # paths) =
     (let (p_drive, p_path) = splitdrive p in
      if p_path \<noteq> [] \<and> is_sep (hd p_path) then
        join_loop (if p_drive \<noteq> [] \<or> result_drive = [] then p_drive else result_drive, p_path) paths
      else if p_drive \<noteq> [] \<and> p_drive \<noteq> result_drive
              \<and> py_lower p_drive \<noteq> py_lower result_drive then
        join_loop (p_drive, p_path) paths
      else
        (let result_drive' =
               (if p_drive \<noteq> [] \<and> p_drive \<noteq> result_drive then p_drive else result_drive);
             result_path' =
               (if result_path \<noteq> [] \<and> \<not> is_sep (last result_path)
                then result_path @ [backslash] else result_path)
         in join_loop (result_drive', result_path' @ p_path) paths))"

definition join :: "string \<Rightarrow> string list \<Rightarrow> string" where
  "join path paths =
     (let (result_drive, result_path) = join_loop (splitdrive path) paths in
      if result_path \<noteq> [] \<and> \<not> is_sep (hd result_path)
         \<and> result_drive \<noteq> [] \<and> last result_drive \<noteq> CHR '':''
      then result_drive @ [backslash] @ result_path
      else result_drive @ result_path)"

section \<open>The host and the state of a run\<close>

text \<open>
  A volume as WMI reports it (\<^verbatim>\<open>Win32_LogicalDisk\<close>): its drive letter, and its serial
  number and label, which are null for a drive without a medium.
\<close>

record volume =
  Name :: string
  VolumeSerialNumber :: "string option"
  VolumeName :: "string option"

type_synonym datetime = int

text \<open>
  Everything the script reads from outside itself: the environment, the file system, the
  contents of a job file (\<^verbatim>\<open>open\<close> gives an errno or a stream, and \<^verbatim>\<open>yaml.load\<close> on
  the stream gives the text of a \<^verbatim>\<open>YAMLError\<close> or a value), the WMI query (nothing when
  it fails, which raises \<open>com_error\<close>), the child process (its pid and exit code, or nothing
  when it cannot be started, which raises \<^verbatim>\<open>OSError\<close>), and the clock: \<open>now n\<close> is what
  the read number \<open>n\<close> of the clock returns. \<open>strftime\<close> and \<open>repr\<close> stand for the library's
  formatting of a time and of a value that is not a string or a scalar. The host is a
  snapshot: what a child process changes on disk is not modelled.
\<close>

record world =
  environ :: "string \<Rightarrow> string option"
  isfile :: "string \<Rightarrow> bool"
  path_exists :: "string \<Rightarrow> bool"
  open_file :: "string \<Rightarrow> nat + (string + pyval)"
  ExecQuery :: "volume list option"
  popen :: "string list \<Rightarrow> (nat \<times> int) option"
  now :: "nat \<Rightarrow> datetime"
  strftime :: "datetime \<Rightarrow> string \<Rightarrow> string"
  repr :: "pyval \<Rightarrow> string"

datatype level = DEBUG | INFO | WARNING | ERROR

datatype event = Log level string | Spawn "string list"

text \<open>
  What the script changes: the module's cache \<open>wmiLogicalDisks\<close>, the number of clock
  reads so far, and the trace of its calls to \<^verbatim>\<open>logging\<close> and of the processes it started.
\<close>

record state =
  wmiLogicalDisks :: "volume list option"
  ticks :: nat
  trace :: "event list"

definition logging :: "level \<Rightarrow> string \<Rightarrow> state \<Rightarrow> state" where
  "logging lv msg s = s\<lparr>trace := trace s @ [Log lv msg]\<rparr>"

text \<open>The text \<^verbatim>\<open>"{}".format(v)\<close> inserts for a value.\<close>

definition py_format :: "world \<Rightarrow> pyval \<Rightarrow> string" where
  "py_format w v =
     (case v of
        PStr s \<Rightarrow> s
      | PNone \<Rightarrow> ''None''
      | PBool b \<Rightarrow> (if b then ''True'' else ''False'')
      | PInt i \<Rightarrow> show_int i
      | _ \<Rightarrow> repr w v)"

section \<open>Volume Directory and Drive Resolver\<close>

definition GetLogicalDrivesFromWMI :: "world \<Rightarrow> state \<Rightarrow> (exn + volume list) \<times> state" where
  "GetLogicalDrivesFromWMI w s =
     (case wmiLogicalDisks s of
        Some disks \<Rightarrow> (Inr disks, s)
      | None \<Rightarrow>
          (case ExecQuery w of
             None \<Rightarrow> (Inl com_error, s)
           | Some disks \<Rightarrow> (Inr disks, s\<lparr>wmiLogicalDisks := Some disks\<rparr>)))"

text \<open>
  \<^verbatim>\<open>objItem.VolumeSerialNumber == serial\<close>: a WMI string equals a YAML value when the
  value is that string, and a WMI null equals a YAML null.
\<close>

definition wmi_eq :: "string option \<Rightarrow> pyval \<Rightarrow> bool" where
  "wmi_eq a v =
     (case a of
        None \<Rightarrow> (case v of PNone \<Rightarrow> True | _ \<Rightarrow> False)
      | Some x \<Rightarrow> (case v of PStr t \<Rightarrow> t = x | _ \<Rightarrow> False))"

definition FindDriveFromSerial :: "world \<Rightarrow> state \<Rightarrow> pyval \<Rightarrow> (exn + string option) \<times> state" where
  "FindDriveFromSerial w s serial =
     (case GetLogicalDrivesFromWMI w s of
        (Inl e, s1) \<Rightarrow> (Inl e, s1)
      | (Inr disks, s1) \<Rightarrow>
          (Inr (map_option Name
                 (find (\<lambda>objItem. wmi_eq (VolumeSerialNumber objItem) serial) disks)), s1))"

definition FindDriveFromName :: "world \<Rightarrow> state \<Rightarrow> pyval \<Rightarrow> (exn + string option) \<times> state" where
  "FindDriveFromName w s name =
     (case GetLogicalDrivesFromWMI w s of
        (Inl e, s1) \<Rightarrow> (Inl e, s1)
      | (Inr disks, s1) \<Rightarrow>
          (Inr (map_option Name
                 (find (\<lambda>objItem. wmi_eq (VolumeName objItem) name) disks)), s1))"

text \<open>
  One \<^verbatim>\<open>if key in options:\<close> block of \<open>ResolveDriveLetter\<close>, which the source writes
  once for \<^verbatim>\<open>serial\<close> and once for \<^verbatim>\<open>name\<close>: the criterion is appended to \<open>tried\<close>,
  the volumes are searched, and \<^verbatim>\<open>if found: return found\<close> leaves the function
  (\<open>Inl found\<close>) when the result is neither \<^verbatim>\<open>None\<close> nor empty; otherwise control
  goes on with the longer \<open>tried\<close> (\<open>Inr tried\<close>).
\<close>

definition ResolveDriveLetter_block ::
  "world \<Rightarrow> state \<Rightarrow> pyval \<Rightarrow> string
    \<Rightarrow> (world \<Rightarrow> state \<Rightarrow> pyval \<Rightarrow> (exn + string option) \<times> state)
    \<Rightarrow> string list \<Rightarrow> (exn + (string + string list)) \<times> state" where
  "ResolveDriveLetter_block w s options key FindDrive tried =
     (case py_in key options of
        Inl e \<Rightarrow> (Inl e, s)
      | Inr False \<Rightarrow> (Inr (Inr tried), s)
      | Inr True \<Rightarrow>
          (case getitem options key of
             Inl e \<Rightarrow> (Inl e, s)
           | Inr v \<Rightarrow>
               (let tried' = tried @ [key @ '': '' @ py_format w v] in
                case FindDrive w s v of
                  (Inl e, s1) \<Rightarrow> (Inl e, s1)
                | (Inr None, s1) \<Rightarrow> (Inr (Inr tried'), s1)
                | (Inr (Some found), s1) \<Rightarrow>
                    if found \<noteq> [] then (Inr (Inl found), s1) else (Inr (Inr tried'), s1))))"

definition ResolveDriveLetter :: "world \<Rightarrow> state \<Rightarrow> pyval \<Rightarrow> (exn + string) \<times> state" where
  "ResolveDriveLetter w s options =
     (case ResolveDriveLetter_block w s options ''serial'' FindDriveFromSerial [] of
        (Inl e, s1) \<Rightarrow> (Inl e, s1)
      | (Inr (Inl found), s1) \<Rightarrow> (Inr found, s1)
      | (Inr (Inr tried), s1) \<Rightarrow>
          (case ResolveDriveLetter_block w s1 options ''name'' FindDriveFromName tried of
             (Inl e, s2) \<Rightarrow> (Inl e, s2)
           | (Inr (Inl found), s2) \<Rightarrow> (Inr found, s2)
           | (Inr (Inr tried'), s2) \<Rightarrow>
               (Inl (RoboException
                      (''Couldn't find drive letter, tried: '' @ py_join '', '' tried')), s2)))"

section \<open>Safety Gate and Execution Orchestrator\<close>

definition CheckFlag :: "world \<Rightarrow> state \<Rightarrow> pyval \<Rightarrow> string \<Rightarrow> (exn + bool) \<times> state" where
  "CheckFlag w s options path =
     (case py_in ''flag'' options of
        Inl e \<Rightarrow> (Inl e, s)
      | Inr False \<Rightarrow> (Inr True, s)
      | Inr True \<Rightarrow>
          (case getitem options ''flag'' of
             Inl e \<Rightarrow> (Inl e, s)
           | Inr (PStr flag) \<Rightarrow>
               (let flag1 = py_replace flag ''$drive$'' (fst (splitdrive path));
                    flag2 = py_replace flag1 ''$path$'' path;
                    s1 = logging DEBUG (''Checking flag: '' @ flag2 @ '' '') s
                in (Inr (isfile w flag2), s1))
           | Inr _ \<Rightarrow> (Inl AttributeError, s)))"

text \<open>
  \<^verbatim>\<open>job['run']\<close>, first with the keys \<open>DefaultJobSettings\<close> sets, then with the four
  keys \<open>ParseLocations\<close> adds. \<open>file_types\<close> and \<open>time_format\<close> may be overwritten with
  any value of the job document.
\<close>

record run_defaults =
  options :: "string list"
  file_types :: pyval
  time_format :: pyval
  time :: datetime

record run = run_defaults +
  src_path :: string
  dst_path :: string
  src_drive :: string
  dst_drive :: string

definition DoRobocopy :: "world \<Rightarrow> state \<Rightarrow> run \<Rightarrow> bool \<Rightarrow> (exn + bool) \<times> state" where
  "DoRobocopy w s job dry_run =
     (case file_types job of
        PStr ft \<Rightarrow>
          (let cmd = [''robocopy'', src_path job, dst_path job, ft] @ options job;
               s1 = logging DEBUG (''Command: '' @ py_join '' '' cmd) s
           in if dry_run then (Inr True, s1)
              else
                (case popen w cmd of
                   None \<Rightarrow> (Inl OSError, s1)
                 | Some (pid, returncode) \<Rightarrow>
                     (let s2 = s1\<lparr>trace := trace s1 @ [Spawn cmd]\<rparr>;
                          s3 = logging DEBUG (''Robocopy running (PID: '' @ show_nat pid @ '')'') s2;
                          s4 = logging DEBUG
                                 (''Robocopy finished, return code: '' @ show_int returncode) s3
                      in if returncode \<ge> 8 then (Inr False, s4) else (Inr True, s4))))
      | _ \<Rightarrow> (Inl TypeError, s))"

section \<open>Job Model Builder\<close>

definition ValidateJob :: "pyval \<Rightarrow> exn + bool" where
  "ValidateJob job =
     bind (py_in ''name'' job) (\<lambda>has_name.
       if \<not> has_name then Inl (RoboException ''A name is required'') else
     bind (py_in ''source'' job) (\<lambda>has_source.
       if \<not> has_source then Inl (RoboException ''Source settings missing!'') else
     bind (py_in ''destination'' job) (\<lambda>has_destination.
       if \<not> has_destination then Inl (RoboException ''Destination settings missing!'') else
     bind (getitem job ''source'') (\<lambda>source.
     bind (py_in ''path'' source) (\<lambda>has_path.
       if \<not> has_path then Inl (RoboException ''Source path not defined'') else
     bind (getitem job ''destination'') (\<lambda>destination.
     bind (py_in ''path'' destination) (\<lambda>has_path'.
       if \<not> has_path' then Inl (RoboException ''Destination path not defined'')
       else Inr True)))))))"

definition VALID_ENV_VARS :: "string list" where
  "VALID_ENV_VARS =
     [''SYSTEMROOT'', ''TMP'', ''COMPUTERNAME'', ''USERDOMAIN'',
      ''PROGRAMFILES'', ''PROGRAMFILES(X86)'', ''COMMONPROGRAMFILES(X86)'',
      ''ALLUSERSPROFILE'', ''LOCALAPPDATA'', ''HOMEPATH'', ''PROGRAMW6432'',
      ''USERNAME'', ''PROGRAMDATA'', ''WINDIR'', ''APPDATA'', ''HOMEDRIVE'',
      ''SYSTEMDRIVE'', ''COMMONPROGRAMW6432'', ''PUBLIC'', ''USERPROFILE'']"

text \<open>
  The loop of \<open>ExpandEnvironmentVars\<close> over the remaining names: a name that
  \<^verbatim>\<open>os.environ\<close> lacks raises \<^verbatim>\<open>KeyError\<close>, which the loop body swallows.
\<close>

fun ExpandEnvironmentVars_loop ::
  "(string \<Rightarrow> string option) \<Rightarrow> string list \<Rightarrow> string \<Rightarrow> string" where
  "ExpandEnvironmentVars_loop env [] path = path"
| "ExpandEnvironmentVars_loop env (var # vars) path =
     ExpandEnvironmentVars_loop env vars
       (case env var of
          None \<Rightarrow> path
        | Some v \<Rightarrow> py_replace path (''$'' @ var @ ''$'') v)"

text \<open>
  A path that is not a string has no \<^verbatim>\<open>replace\<close>: the attribute is looked up before
  the environment is read, so the first turn of the loop raises \<^verbatim>\<open>AttributeError\<close>.
\<close>

definition ExpandEnvironmentVars :: "world \<Rightarrow> pyval \<Rightarrow> exn + string" where
  "ExpandEnvironmentVars w path =
     (case path of
        PStr p \<Rightarrow> Inr (ExpandEnvironmentVars_loop (environ w) VALID_ENV_VARS p)
      | _ \<Rightarrow> Inl AttributeError)"

definition SubstitutePath :: "world \<Rightarrow> pyval \<Rightarrow> run \<Rightarrow> exn + string" where
  "SubstitutePath w path job =
     (case path of
        PStr p \<Rightarrow>
          (let p1 = py_replace p ''$src_path$'' (src_path job);
               p2 = py_replace p1 ''$dst_path$'' (dst_path job);
               p3 = py_replace p2 ''$src_drive$'' (src_drive job);
               p4 = py_replace p3 ''$dst_drive$'' (dst_drive job)
           in case time_format job of
                PStr fmt \<Rightarrow>
                  (let timestamp = strftime w (time job) fmt;
                       p5 = py_replace p4 ''$timestamp$'' timestamp
                   in ExpandEnvironmentVars w (PStr p5))
              | _ \<Rightarrow> Inl TypeError)
      | _ \<Rightarrow> Inl AttributeError)"

definition ParseSettings :: "pyval \<Rightarrow> run_defaults \<Rightarrow> exn + run_defaults" where
  "ParseSettings job r =
     (case bind (getitem job ''settings'') (\<lambda>settings. getitem settings ''time_format'') of
        Inl (KeyError k) \<Rightarrow> Inr r
      | Inl e \<Rightarrow> Inl e
      | Inr fmt \<Rightarrow> Inr (r\<lparr>time_format := fmt\<rparr>))"

definition ParseRobocopyOptions :: "world \<Rightarrow> state \<Rightarrow> pyval \<Rightarrow> run \<Rightarrow> (exn + run) \<times> state" where
  "ParseRobocopyOptions w s job r =
     (case (case bind (getitem job ''robocopy'') (\<lambda>robocopy. getitem robocopy ''options'') of
              Inl (KeyError k) \<Rightarrow> Inr r
            | Inl e \<Rightarrow> Inl e
            | Inr (PStr opts) \<Rightarrow> Inr (r\<lparr>options := py_split opts CHR '' ''\<rparr>)
            | Inr _ \<Rightarrow> Inl AttributeError) of
        Inl e \<Rightarrow> (Inl e, s)
      | Inr r1 \<Rightarrow>
     (case (case bind (getitem job ''robocopy'') (\<lambda>robocopy. getitem robocopy ''log'') of
              Inl (KeyError k) \<Rightarrow> (Inr r1, s)
            | Inl e \<Rightarrow> (Inl e, s)
            | Inr log \<Rightarrow>
                (case SubstitutePath w log r1 of
                   Inl (KeyError k) \<Rightarrow> (Inr r1, s)
                 | Inl e \<Rightarrow> (Inl e, s)
                 | Inr log_path \<Rightarrow>
                     (Inr (r1\<lparr>options := options r1 @ [''/LOG:'' @ log_path]\<rparr>),
                      logging DEBUG (''Log will be saved to: '' @ log_path) s))) of
        (Inl e, s1) \<Rightarrow> (Inl e, s1)
      | (Inr r2, s1) \<Rightarrow>
     (case bind (getitem job ''robocopy'') (\<lambda>robocopy. getitem robocopy ''files'') of
        Inl (KeyError k) \<Rightarrow> (Inr r2, s1)
      | Inl e \<Rightarrow> (Inl e, s1)
      | Inr files \<Rightarrow> (Inr (r2\<lparr>file_types := files\<rparr>), s1))))"

text \<open>\<^verbatim>\<open>v.keys()\<close>: only a mapping has keys.\<close>

definition keys_of :: "pyval \<Rightarrow> exn + (string \<Rightarrow> pyval option)" where
  "keys_of v = (case v of PDict m \<Rightarrow> Inr m | _ \<Rightarrow> Inl AttributeError)"

text \<open>
  The block \<open>ParseLocations\<close> runs for \<^verbatim>\<open>job['source']\<close> and again (the source says:
  duplicated code) for \<^verbatim>\<open>job['destination']\<close>: \<open>path\<close> is the location's path after
  the expansion of environment variables; the result is the drive and the path.
\<close>

definition ParseLocations_side ::
  "world \<Rightarrow> state \<Rightarrow> pyval \<Rightarrow> string \<Rightarrow> string \<Rightarrow> (exn + string \<times> string) \<times> state" where
  "ParseLocations_side w s job side path =
     (case bind (getitem job side) keys_of of
        Inl e \<Rightarrow> (Inl e, s)
      | Inr keys \<Rightarrow>
          if \<not> Option.is_none (keys ''serial'') \<or> \<not> Option.is_none (keys ''name'') then
            (case getitem job side of
               Inl e \<Rightarrow> (Inl e, s)
             | Inr location \<Rightarrow>
                 (case ResolveDriveLetter w s location of
                    (Inl e, s1) \<Rightarrow> (Inl e, s1)
                  | (Inr drive, s1) \<Rightarrow> (Inr (drive, join drive [[backslash], path]), s1)))
          else (Inr (fst (splitdrive path), path), s))"

definition ParseLocations :: "world \<Rightarrow> state \<Rightarrow> pyval \<Rightarrow> run_defaults \<Rightarrow> (exn + run) \<times> state" where
  "ParseLocations w s job r =
     (case bind (getitem job ''source'') (\<lambda>source.
             bind (getitem source ''path'') (ExpandEnvironmentVars w)) of
        Inl e \<Rightarrow> (Inl e, s)
      | Inr src_path0 \<Rightarrow>
     (case bind (getitem job ''destination'') (\<lambda>destination.
             bind (getitem destination ''path'') (ExpandEnvironmentVars w)) of
        Inl e \<Rightarrow> (Inl e, s)
      | Inr dst_path0 \<Rightarrow>
     (case ParseLocations_side w s job ''source'' src_path0 of
        (Inl e, s1) \<Rightarrow> (Inl e, s1)
      | (Inr (src_drive1, src_path1), s1) \<Rightarrow>
     (case ParseLocations_side w s1 job ''destination'' dst_path0 of
        (Inl e, s2) \<Rightarrow> (Inl e, s2)
      | (Inr (dst_drive1, dst_path1), s2) \<Rightarrow>
          if \<not> path_exists w src_path1
          then (Inl (RoboException (''Source doesn't exist: '' @ src_path1)), s2)
          else (Inr \<lparr>options = options r, file_types = file_types r,
                      time_format = time_format r, time = time r,
                      src_path = src_path1, dst_path = dst_path1,
                      src_drive = src_drive1, dst_drive = dst_drive1\<rparr>, s2)))))"

definition DefaultJobSettings :: "world \<Rightarrow> state \<Rightarrow> run_defaults \<times> state" where
  "DefaultJobSettings w s =
     (\<lparr>options = [], file_types = PStr ''*.*'',
       time_format = PStr ''%Y-%m-%dT%H%M%S%z'', time = now w (ticks s)\<rparr>,
      s\<lparr>ticks := ticks s + 1\<rparr>)"

section \<open>Job Runner\<close>

text \<open>
  \<open>LoadJob\<close> on the stream of the file \<open>name\<close>: \<open>doc\<close> is what \<^verbatim>\<open>yaml.load\<close> makes of
  the stream. \<^verbatim>\<open>None\<close> is returned after a \<^verbatim>\<open>YAMLError\<close>, and is also what an empty
  document denotes.
\<close>

definition LoadJob :: "state \<Rightarrow> string \<Rightarrow> string + pyval \<Rightarrow> pyval \<times> state" where
  "LoadJob s name doc =
     (case doc of
        Inl exc \<Rightarrow>
          (PNone,
           logging DEBUG (''YAML parser output: '' @ exc)
             (logging ERROR (''YAML error in job file '' @ name @ '' (run with -v for debug)'') s))
      | Inr job \<Rightarrow> (job, s))"

text \<open>
  The second \<^verbatim>\<open>try\<close> block of \<open>RunJob\<close>: defaults, settings, locations and Robocopy
  options, in this order.
\<close>

definition RunJob_build :: "world \<Rightarrow> state \<Rightarrow> pyval \<Rightarrow> (exn + run) \<times> state" where
  "RunJob_build w s job =
     (case DefaultJobSettings w s of
        (r0, s1) \<Rightarrow>
          (case ParseSettings job r0 of
             Inl e \<Rightarrow> (Inl e, s1)
           | Inr r1 \<Rightarrow>
               (case ParseLocations w s1 job r1 of
                  (Inl e, s2) \<Rightarrow> (Inl e, s2)
                | (Inr r2, s2) \<Rightarrow> ParseRobocopyOptions w s2 job r2)))"

text \<open>
  The end of \<open>RunJob\<close>, after the job is built: the two safety flags, then Robocopy.
\<close>

definition RunJob_flags :: "world \<Rightarrow> state \<Rightarrow> pyval \<Rightarrow> run \<Rightarrow> bool \<Rightarrow> (exn + bool) \<times> state" where
  "RunJob_flags w s job r dry_run =
     (case getitem job ''source'' of
        Inl e \<Rightarrow> (Inl e, s)
      | Inr source \<Rightarrow>
     (case CheckFlag w s source (src_drive r) of
        (Inl e, s1) \<Rightarrow> (Inl e, s1)
      | (Inr False, s1) \<Rightarrow> (Inr False, logging ERROR ''Could not find source safety flag'' s1)
      | (Inr True, s1) \<Rightarrow>
     (case getitem job ''destination'' of
        Inl e \<Rightarrow> (Inl e, s1)
      | Inr destination \<Rightarrow>
     (case CheckFlag w s1 destination (dst_drive r) of
        (Inl e, s2) \<Rightarrow> (Inl e, s2)
      | (Inr False, s2) \<Rightarrow>
          (Inr False, logging ERROR ''Could not find destination safety flag'' s2)
      | (Inr True, s2) \<Rightarrow> DoRobocopy w s2 r dry_run))))"

definition RunJob :: "world \<Rightarrow> state \<Rightarrow> string \<Rightarrow> bool \<Rightarrow> (exn + bool) \<times> state" where
  "RunJob w s job_file dry_run =
     (if \<not> isfile w job_file
      then (Inr False, logging ERROR (''Could not find file '' @ job_file) s)
      else
        (case open_file w job_file of
           Inl errno \<Rightarrow>
             if errno = EACCES
             then (Inr False,
                   logging ERROR
                     (''Could not access file '' @ job_file @ '' (permission denied)'') s)
             else (Inl (IOError errno), s)
         | Inr fp \<Rightarrow>
             (case LoadJob s job_file fp of
                (PNone, s1) \<Rightarrow> (Inr False, s1)
              | (job, s1) \<Rightarrow>
                  (case bind (ValidateJob job) (\<lambda>ok. getitem job ''name'') of
                     Inl (RoboException exc) \<Rightarrow>
                       (Inr False,
                        logging ERROR
                          (''Configuration problem: '' @ exc @ '' (in '' @ job_file @ '')'') s1)
                   | Inl e \<Rightarrow> (Inl e, s1)
                   | Inr name \<Rightarrow>
                       (case RunJob_build w
                               (logging DEBUG (''Loaded job: '' @ py_format w name) s1) job of
                          (Inl (RoboException exc), s2) \<Rightarrow> (Inr False, logging ERROR exc s2)
                        | (Inl e, s2) \<Rightarrow> (Inl e, s2)
                        | (Inr r, s2) \<Rightarrow> RunJob_flags w s2 job r dry_run)))))"

text \<open>
  The loop of \<open>main\<close> over the set \<open>jobs\<close>, in the order the set yields them. The test
  of the extension reads \<open>file\<close>, the variable the globbing loop before it has left at the
  last path it found, not the loop's own \<open>job\<close>. An exception of \<open>RunJob\<close> is not caught.
\<close>

fun main_loop ::
  "world \<Rightarrow> string \<Rightarrow> bool \<Rightarrow> string list \<Rightarrow> nat \<times> nat \<Rightarrow> state
    \<Rightarrow> (exn + nat \<times> nat) \<times> state" where
  "main_loop w file dry_run [] (succeeded, failed) s = (Inr (succeeded, failed), s)"
| "main_loop w file dry_run (job # jobs) (succeeded, failed) s =
     (if endswith file ''.yaml'' then
        (case RunJob w (logging INFO (''Running job from '' @ job) s) job dry_run of
           (Inl e, s1) \<Rightarrow> (Inl e, s1)
         | (Inr True, s1) \<Rightarrow>
             main_loop w file dry_run jobs (succeeded + 1, failed)
               (logging DEBUG (''Job status OK '' @ job) s1)
         | (Inr False, s1) \<Rightarrow>
             main_loop w file dry_run jobs (succeeded, failed + 1)
               (logging WARNING (''Job status failed '' @ job) s1))
      else
        main_loop w file dry_run jobs (succeeded, failed)
          (logging WARNING (''Ignoring job with incorrect extension: '' @ job) s))"

text \<open>
  \<open>main\<close> from the point where the job files are known: \<open>globbed\<close> is every path the
  globs yielded, in order, and \<open>jobs\<close> is the set of them in its iteration order. The
  result is the tally \<open>(succeeded, failed)\<close>. Without any path there is no job, and the
  loop never reads \<open>file\<close>.
\<close>

definition main :: "world \<Rightarrow> state \<Rightarrow> string list \<Rightarrow> string list \<Rightarrow> bool \<Rightarrow> (exn + nat \<times> nat) \<times> state" where
  "main w s globbed jobs dry_run =
     (let s1 = logging INFO (''Found '' @ show_nat (length jobs) @ '' job(s) to run'') s;
          s2 = (if dry_run
                then logging WARNING ''--dry-run option given, won't execute Robocopy'' s1
                else s1)
      in case main_loop w (last globbed) dry_run jobs (0, 0) s2 of
           (Inl e, s3) \<Rightarrow> (Inl e, s3)
         | (Inr (succeeded, failed), s3) \<Rightarrow>
             (Inr (succeeded, failed),
              logging INFO
                (''Finished: '' @ show_nat succeeded @ '' succeeded and ''
                   @ show_nat failed @ '' failed'') s3))"





section \<open>Example hosts and jobs\<close>

text \<open>Concrete inputs on which the theorems below are instantiated.\<close>

definition example_state :: state where
  "example_state = \<lparr>wmiLogicalDisks = None, ticks = 0, trace = []\<rparr>"



text \<open>The volumes of the example hosts: \<open>D:\<close> is a drive without a medium.\<close>

definition example_volumes :: "volume list" where
  "example_volumes =
     [\<lparr>Name = ''C:'', VolumeSerialNumber = Some ''AAAA1111'', VolumeName = Some ''SYSTEM''\<rparr>,
      \<lparr>Name = ''D:'', VolumeSerialNumber = None, VolumeName = None\<rparr>,
      \<lparr>Name = ''E:'', VolumeSerialNumber = Some ''BBBB2222'', VolumeName = Some ''KINGSTON''\<rparr>]"




text \<open>
  Three job documents that do not pass validation, and a host holding them as job files.
  The \<open>source\<close> section of the third is written without any entry, which YAML reads as
  null.
\<close>

definition nameless_job :: pyval where
  "nameless_job =
     PDict [''source'' \<mapsto> PDict [''path'' \<mapsto> PStr ''data''],
            ''destination'' \<mapsto> PDict [''path'' \<mapsto> PStr ''backup'']]"




text \<open>
  Job documents and a host holding them as job files: \<open>good_job\<close> finds its destination by
  serial number, guards it with a safety flag and writes a log; \<open>plain_job\<close> names both
  drives itself. On the host \<open>demo_world code\<close>, \<open>broken.yaml\<close> does not parse,
  \<open>locked.yaml\<close> cannot be opened for lack of permission, \<open>vanished.yaml\<close> passes the test
  for a regular file and then fails to open with \<open>ENOENT\<close>, and every child process ends with
  \<open>code\<close>.
\<close>

definition good_source :: "string \<Rightarrow> pyval option" where
  "good_source = [''path'' \<mapsto> PStr (''C:'' @ [backslash] @ ''data'')]"

definition good_destination :: "string \<Rightarrow> pyval option" where
  "good_destination =
     [''serial'' \<mapsto> PStr ''BBBB2222'', ''path'' \<mapsto> PStr ''backup'',
      ''flag'' \<mapsto> PStr (''$drive$'' @ [backslash] @ ''FLAG.TXT'')]"

definition good_robocopy :: "string \<Rightarrow> pyval option" where
  "good_robocopy =
     [''options'' \<mapsto> PStr ''/MIR /Z'',
      ''log'' \<mapsto> PStr (''$dst_drive$'' @ [backslash] @ ''logs''
                         @ [backslash] @ ''$timestamp$.log'')]"

definition good_fields :: "string \<Rightarrow> pyval option" where
  "good_fields =
     [''name'' \<mapsto> PStr ''photos'',
      ''source'' \<mapsto> PDict good_source,
      ''destination'' \<mapsto> PDict good_destination,
      ''settings'' \<mapsto> PDict [''time_format'' \<mapsto> PStr ''%Y%m%d''],
      ''robocopy'' \<mapsto> PDict good_robocopy]"

definition good_job :: pyval where
  "good_job = PDict good_fields"






definition nodrive_job :: pyval where
  "nodrive_job =
     PDict [''name'' \<mapsto> PStr ''photos'',
            ''source'' \<mapsto> PDict [''path'' \<mapsto> PStr (''C:'' @ [backslash] @ ''data'')],
            ''destination'' \<mapsto>
               PDict [''serial'' \<mapsto> PStr ''CCCC3333'', ''path'' \<mapsto> PStr ''backup'']]"

definition nosource_job :: pyval where
  "nosource_job =
     PDict [''name'' \<mapsto> PStr ''photos'',
            ''source'' \<mapsto> PDict [''path'' \<mapsto> PStr (''C:'' @ [backslash] @ ''nothing'')],
            ''destination'' \<mapsto>
               PDict [''serial'' \<mapsto> PStr ''BBBB2222'', ''path'' \<mapsto> PStr ''backup'']]"

definition noflag_job :: pyval where
  "noflag_job =
     PDict [''name'' \<mapsto> PStr ''photos'',
            ''source'' \<mapsto>
               PDict [''path'' \<mapsto> PStr (''C:'' @ [backslash] @ ''data''),
                      ''flag'' \<mapsto> PStr (''$drive$'' @ [backslash] @ ''FLAG.TXT'')],
            ''destination'' \<mapsto>
               PDict [''serial'' \<mapsto> PStr ''BBBB2222'', ''path'' \<mapsto> PStr ''backup'']]"

definition plain_job :: pyval where
  "plain_job =
     PDict [''name'' \<mapsto> PStr ''documents'',
            ''source'' \<mapsto> PDict [''path'' \<mapsto> PStr (''C:'' @ [backslash] @ ''data'')],
            ''destination'' \<mapsto> PDict [''path'' \<mapsto> PStr (''D:'' @ [backslash] @ ''backup'')]]"

definition demo_files :: "(string \<times> (nat + (string + pyval))) list" where
  "demo_files =
     [(''good.yaml'', Inr (Inr good_job)),
      (''plain.yaml'', Inr (Inr plain_job)),
      (''other.yaml'', Inr (Inr plain_job)),
      (''broken.yaml'', Inr (Inl ''mapping values are not allowed here'')),
      (''locked.yaml'', Inl 13),
      (''vanished.yaml'', Inl 2),
      (''nameless.yaml'', Inr (Inr nameless_job)),
      (''nodrive.yaml'', Inr (Inr nodrive_job)),
      (''nosource.yaml'', Inr (Inr nosource_job)),
      (''noflag.yaml'', Inr (Inr noflag_job))]"

definition demo_world :: "int \<Rightarrow> world" where
  "demo_world code =
     \<lparr>environ = [''TMP'' \<mapsto> ''C:'' @ [backslash] @ ''Temp''],
      isfile = (\<lambda>p. p \<in> set (map fst demo_files) \<or> p = ''E:'' @ [backslash] @ ''FLAG.TXT''),
      path_exists = (\<lambda>p. p = ''C:'' @ [backslash] @ ''data''),
      open_file = (\<lambda>p. case map_of demo_files p of Some r \<Rightarrow> r | None \<Rightarrow> Inl 2),
      ExecQuery = Some example_volumes,
      popen = (\<lambda>cmd. Some (4242, code)),
      now = (\<lambda>n. 1709640000 + int n),
      strftime = (\<lambda>t fmt. if fmt = ''%Y%m%d'' then ''20240305'' else fmt),
      repr = (\<lambda>v. ''?'')\<rparr>"










section \<open>Execution Orchestrator: the verdict\<close>



section \<open>Drive Resolver: precedence of the criteria\<close>











section \<open>Safety Gate\<close>



section \<open>Path Substitution Engine: environment values\<close>
































section \<open>Validation of a job\<close>





section \<open>Job Runner: what a run returns and what it raises\<close>

text \<open>The definitions a concrete run unfolds.\<close>

lemmas demo_defs = demo_world_def demo_files_def good_job_def good_fields_def good_source_def
  good_destination_def good_robocopy_def plain_job_def nodrive_job_def
  nosource_job_def noflag_job_def nameless_job_def example_volumes_def example_state_def

lemmas run_defs = RunJob_def LoadJob_def ValidateJob_def bind_def py_in_def getitem_def
  RunJob_build_def DefaultJobSettings_def ParseSettings_def ParseLocations_def
  ParseLocations_side_def keys_of_def ExpandEnvironmentVars_def VALID_ENV_VARS_def
  ResolveDriveLetter_def ResolveDriveLetter_block_def FindDriveFromSerial_def
  FindDriveFromName_def GetLogicalDrivesFromWMI_def wmi_eq_def py_format_def
  splitdrive_def join_def is_sep_def py_lower_def lower_char_def py_find_def
  ParseRobocopyOptions_def SubstitutePath_def RunJob_flags_def CheckFlag_def
  DoRobocopy_def logging_def Let_def EACCES_def











section \<open>Properties of the path functions\<close>
















section \<open>Resolution of the locations\<close>















section \<open>The timestamp of a job\<close>


















section \<open>The safety flags of a run\<close>



















section \<open>A batch of jobs\<close>

lemma main_loop_tally:
  assumes "endswith file ''.yaml''"
    and "\<forall>job \<in> set jobs. \<forall>s. \<exists>r s'. RunJob w s job d = (Inr r, s')"
  shows "\<exists>succeeded failed s'.
      main_loop w file d jobs (a, b) s = (Inr (succeeded, failed), s')
      \<and> succeeded + failed = a + b + length jobs
      \<and> a + length (filter (\<lambda>job. \<forall>s. fst (RunJob w s job d) = Inr True) jobs) \<le> succeeded
      \<and> b + length (filter (\<lambda>job. \<forall>s. fst (RunJob w s job d) = Inr False) jobs) \<le> failed"
  using assms(2)
proof (induction jobs arbitrary: a b s)
  case Nil
  show ?case by simp
next
  case (Cons job jobs)
  let ?s0 = "logging INFO (''Running job from '' @ job) s"
  from Cons.prems obtain r s1 where run: "RunJob w ?s0 job d = (Inr r, s1)"
    by (meson list.set_intros(1))
  from Cons.prems have rest: "\<forall>job \<in> set jobs. \<forall>s. \<exists>r s'. RunJob w s job d = (Inr r, s')"
    by simp
  show ?case
  proof (cases r)
    case True
    let ?s2 = "logging DEBUG (''Job status OK '' @ job) s1"
    from Cons.IH [OF rest, of "a + 1" b ?s2] obtain succeeded failed s'
      where ih: "main_loop w file d jobs (a + 1, b) ?s2 = (Inr (succeeded, failed), s')"
        "succeeded + failed = a + 1 + b + length jobs"
        "a + 1 + length (filter (\<lambda>job. \<forall>s. fst (RunJob w s job d) = Inr True) jobs)
           \<le> succeeded"
        "b + length (filter (\<lambda>job. \<forall>s. fst (RunJob w s job d) = Inr False) jobs) \<le> failed"
      by blast
    have notF: "\<not> (\<forall>s. fst (RunJob w s job d) = Inr False)"
      using run True by (metis Inr_inject fst_conv)
    from ih run True notF assms(1) show ?thesis by auto
  next
    case False
    let ?s2 = "logging WARNING (''Job status failed '' @ job) s1"
    from Cons.IH [OF rest, of a "b + 1" ?s2] obtain succeeded failed s'
      where ih: "main_loop w file d jobs (a, b + 1) ?s2 = (Inr (succeeded, failed), s')"
        "succeeded + failed = a + (b + 1) + length jobs"
        "a + length (filter (\<lambda>job. \<forall>s. fst (RunJob w s job d) = Inr True) jobs)
           \<le> succeeded"
        "b + 1 + length (filter (\<lambda>job. \<forall>s. fst (RunJob w s job d) = Inr False) jobs)
           \<le> failed"
      by blast
    have notT: "\<not> (\<forall>s. fst (RunJob w s job d) = Inr True)"
      using run False by (metis Inr_inject fst_conv)
    from ih run False notT assms(1) show ?thesis by auto
  qed
qed

text \<open>
  When the extension test fails, which it does for every job at once because it reads
  \<open>file\<close>, no job is run and the tally stays as it is.
\<close>

lemma main_loop_ignores_all:
  assumes "\<not> endswith file ''.yaml''"
  shows "fst (main_loop w file d jobs (a, b) s) = Inr (a, b)"
  using assms by (induction jobs arbitrary: s) simp_all

text \<open>
  Claim C9, as amended. Let every path the globs found end in \<open>.yaml\<close>, and let no job of
  the batch make \<open>RunJob\<close> raise. Then \<open>main\<close> runs every job and counts each once:
  \<open>succeeded + failed\<close> is the number of jobs, every job that returns true in whatever state
  it runs is among the successes and every job that returns false is among the failures; a
  job file whose text does not parse returns false in every state, so it is one failure,
  and the jobs after it are run.
\<close>

theorem main_tally:
  assumes yaml: "\<forall>p \<in> set globbed. endswith p ''.yaml''"
    and same: "set jobs = set globbed"
    and returns: "\<forall>job \<in> set jobs. \<forall>s. \<exists>r s'. RunJob w s job d = (Inr r, s')"
  shows "\<exists>succeeded failed s'.
      main w s globbed jobs d = (Inr (succeeded, failed), s')
      \<and> succeeded + failed = length jobs
      \<and> length (filter (\<lambda>job. \<forall>s. fst (RunJob w s job d) = Inr True) jobs) \<le> succeeded
      \<and> length (filter (\<lambda>job. \<forall>s. fst (RunJob w s job d) = Inr False) jobs) \<le> failed
      \<and> (\<forall>job exc. job \<in> set jobs \<and> isfile w job \<and> open_file w job = Inr (Inl exc) \<longrightarrow>
            (\<forall>s. fst (RunJob w s job d) = Inr False))"
proof -
  have malformed: "\<forall>job exc. job \<in> set jobs \<and> isfile w job \<and> open_file w job = Inr (Inl exc) \<longrightarrow>
            (\<forall>s. fst (RunJob w s job d) = Inr False)"
    by (simp add: RunJob_def LoadJob_def)
  show ?thesis
  proof (cases "jobs = []")
    case True
    with malformed show ?thesis by (simp add: main_def Let_def)
  next
    case False
    with same have "globbed \<noteq> []" by auto
    then have "last globbed \<in> set globbed" by simp
    with yaml have ext: "endswith (last globbed) ''.yaml''" by blast
    let ?s1 = "logging INFO (''Found '' @ show_nat (length jobs) @ '' job(s) to run'') s"
    let ?s2 = "if d then logging WARNING ''--dry-run option given, won't execute Robocopy'' ?s1
               else ?s1"
    from main_loop_tally [OF ext returns, of 0 0 ?s2] obtain succeeded failed s'
      where l: "main_loop w (last globbed) d jobs (0, 0) ?s2 = (Inr (succeeded, failed), s')"
        "succeeded + failed = length jobs"
        "length (filter (\<lambda>job. \<forall>s. fst (RunJob w s job d) = Inr True) jobs) \<le> succeeded"
        "length (filter (\<lambda>job. \<forall>s. fst (RunJob w s job d) = Inr False) jobs) \<le> failed"
      by auto
    from l(1) have "main w s globbed jobs d =
        (Inr (succeeded, failed),
         logging INFO (''Finished: '' @ show_nat succeeded @ '' succeeded and ''
                   @ show_nat failed @ '' failed'') s')"
      by (cases d) (simp_all add: main_def Let_def)
    with l(2-4) malformed show ?thesis by blast
  qed
qed

lemma plain_run:
  "fst (RunJob (demo_world 1) s ''plain.yaml'' False) = Inr True"
  "fst (RunJob (demo_world 1) s ''other.yaml'' False) = Inr True"
  by (simp_all add: demo_defs run_defs)

lemma broken_run: "fst (RunJob (demo_world 1) s ''broken.yaml'' False) = Inr False"
  by (simp add: demo_defs run_defs)

lemma show_nat_3: "show_nat (Suc (Suc (Suc 0))) = ''3''"
  by (simp add: show_nat.simps)

text \<open>
  A batch of three job files of which the second does not parse: two successes and one
  failure.
\<close>

theorem main_tally_witness:
  "fst (main (demo_world 1) example_state
          [''plain.yaml'', ''broken.yaml'', ''other.yaml'']
          [''plain.yaml'', ''broken.yaml'', ''other.yaml''] False) = Inr (2, 1)"
proof -
  let ?jobs = "[''plain.yaml'', ''broken.yaml'', ''other.yaml'']"
  have yaml: "\<forall>p \<in> set ?jobs. endswith p ''.yaml''"
    by (simp add: endswith_def suffix_def)
  have returns: "\<forall>job \<in> set ?jobs. \<forall>s. \<exists>r s'. RunJob (demo_world 1) s job False = (Inr r, s')"
    using plain_run broken_run by (auto intro: prod_eqI [of _ "(Inr _, _)"] simp: prod_eq_iff)
  from main_tally [OF yaml refl returns, of example_state] obtain succeeded failed s'
    where m: "main (demo_world 1) example_state ?jobs ?jobs False = (Inr (succeeded, failed), s')"
      and total: "succeeded + failed = length ?jobs"
      and ok: "length (filter (\<lambda>job. \<forall>s. fst (RunJob (demo_world 1) s job False) = Inr True)
                  ?jobs) \<le> succeeded"
      and bad: "length (filter (\<lambda>job. \<forall>s. fst (RunJob (demo_world 1) s job False) = Inr False)
                  ?jobs) \<le> failed"
    by blast
  from ok have "2 \<le> succeeded" by (simp add: plain_run broken_run)
  moreover from bad have "1 \<le> failed" by (simp add: plain_run broken_run)
  moreover from total have "succeeded + failed = 3" by simp
  ultimately have "succeeded = 2 \<and> failed = 1" by arith
  with m show ?thesis by simp
qed

text \<open>
  Claim C9 as stated fails: in a batch of three job files whose second is malformed, the
  \<open>IOError\<close> that \<open>RunJob\<close> raises again for the first ends \<open>main\<close>; the third job, which is in
  order, is never run and no tally is reported.
\<close>

theorem main_aborted_by_IOError:
  "main (demo_world 1) example_state
     [''vanished.yaml'', ''broken.yaml'', ''plain.yaml'']
     [''vanished.yaml'', ''broken.yaml'', ''plain.yaml''] False
   = (Inl (IOError 2),
      logging INFO ''Running job from vanished.yaml''
        (logging INFO ''Found 3 job(s) to run'' example_state))"
  by (simp add: main_def Let_def endswith_def suffix_def show_nat_3 RunJob_def
      demo_world_def demo_files_def EACCES_def logging_def)

end
